theory Spec2Isabelle
  imports Complex_Main "HOL-Library.Sublist" "HOL-Library.Multiset"
begin

section \<open>Scheduled weight-decay optimizer (pytorch\_optimization.py)\<close>

text \<open>
  Numbers. Python floats and the entries of tensors are modelled as real numbers: the
  theory is about the arithmetic the code writes down, not about rounding. Python's
  scalar division raises \<open>ZeroDivisionError\<close> on a zero divisor and is modelled
  by \<open>py_div\<close>; element-wise tensor division never raises and is HOL's total division.
  \<open>torch.cos\<close> is the cosine. A tensor is the list of its entries.
\<close>

subsection \<open>Errors\<close>

datatype pyval = Num real | Str string | NoneVal

text \<open>
  \<open>ValueError fmt v\<close> is \<open>ValueError(fmt.format(v))\<close>: the message template and the
  value formatted into it.
\<close>

datatype error =
    ValueError string pyval
  | RuntimeError string
  | ZeroDivisionError
  | TypeError
  | KeyError string
  | AssertionError
  | ImportError string

definition py_div :: "real \<Rightarrow> real \<Rightarrow> error + real" where
  "py_div a b = (if b = 0 then Inl ZeroDivisionError else Inr (a / b))"

subsection \<open>Schedule functions\<close>

definition warmup_cosine :: "real \<Rightarrow> real \<Rightarrow> error + real" where
  "warmup_cosine x wu =
     (if x < wu then py_div x wu
      else Inr (0.5 * (1.0 + cos (pi * x))))"

definition warmup_constant :: "real \<Rightarrow> real \<Rightarrow> error + real" where
  "warmup_constant x wu =
     (if x < wu then py_div x wu
      else Inr 1.0)"

definition warmup_linear :: "real \<Rightarrow> real \<Rightarrow> error + real" where
  "warmup_linear x wu =
     (if x < wu then py_div x wu
      else py_div (1.0 - x) (1.0 - wu))"

definition warmup_fix :: "real \<Rightarrow> real \<Rightarrow> error + real" where
  "warmup_fix stp warmup_step =
     (case py_div stp warmup_step of
        Inl err \<Rightarrow> Inl err
      | Inr q \<Rightarrow> Inr (min 1.0 q))"


definition SCHEDULES :: "(string \<times> (real \<Rightarrow> real \<Rightarrow> error + real)) list" where
  "SCHEDULES =
     [(''warmup_cosine'', warmup_cosine),
      (''warmup_constant'', warmup_constant),
      (''warmup_linear'', warmup_linear),
      (''warmup_fix'', warmup_fix)]"


subsection \<open>Hyperparameters, parameter groups, optimizer state\<close>

text \<open>
  The keyword arguments of \<open>BERTAdam.__init__\<close>, which are also the keys of the
  \<open>defaults\<close> dictionary and of every parameter group. \<open>lr\<close> and
  \<open>cycle_step\<close> may be \<open>None\<close>.
\<close>

record hyper =
  lr :: "real option"
  schedule :: string
  warmup :: real
  t_total :: real
  b1 :: real
  b2 :: real
  e :: real
  weight_decay_rate :: real
  max_grad_norm :: real
  cycle_step :: "int option"

text \<open>A parameter group: the hyperparameters and the list \<open>params\<close>. A parameter
  is referred to by its identity (a number); the objects live in the \<open>heap\<close>.\<close>

record group = hyper +
  params :: "nat list"

text \<open>The gradient \<open>p.grad\<close>: its \<open>is_sparse\<close> flag and its entries.\<close>

datatype gradient = Gradient (is_sparse: bool) (entries: "real list")

record parameter =
  data :: "real list"
  grad :: "gradient option"

record pstate =
  step :: int
  next_m :: "real list"
  next_v :: "real list"

text \<open>
  What an update call reads and mutates in place: \<open>self.state\<close> (no entry, or an
  empty one, is \<open>None\<close>) and the parameter objects.
\<close>

record world =
  state :: "nat \<Rightarrow> pstate option"
  heap :: "nat \<Rightarrow> parameter"

text \<open>A dictionary handed to the constructor as a parameter group: the key
  \<open>params\<close> and, when present, the key \<open>weight_decay_rate\<close>.\<close>

datatype param_dict = ParamDict (pd_params: "nat list") (pd_weight_decay_rate: "real option")

record BERTAdam =
  defaults :: hyper
  param_groups :: "group list"

subsection \<open>Construction\<close>

text \<open>The defaults of the keyword arguments; \<open>lr\<close> has none.\<close>

definition default_args :: "real option \<Rightarrow> hyper" where
  "default_args l =
     \<lparr>lr = l, schedule = ''warmup_linear'', warmup = -1, t_total = -1,
      b1 = 0.9, b2 = 0.999, e = 0.000001, weight_decay_rate = 0.01,
      max_grad_norm = 1.0, cycle_step = None\<rparr>"

text \<open>
  The base class constructor \<open>Optimizer.__init__(params, defaults)\<close> belongs to the
  tensor library, not to the repository: it stores the groups, giving each the defaults
  for the keys its dictionary lacks.
\<close>

definition add_param_group :: "hyper \<Rightarrow> param_dict \<Rightarrow> group" where
  "add_param_group d pd =
     \<lparr>lr = lr d, schedule = schedule d, warmup = warmup d, t_total = t_total d,
      b1 = b1 d, b2 = b2 d, e = e d,
      weight_decay_rate =
        (case pd_weight_decay_rate pd of None \<Rightarrow> weight_decay_rate d | Some r \<Rightarrow> r),
      max_grad_norm = max_grad_norm d, cycle_step = cycle_step d,
      params = pd_params pd\<rparr>"

definition BERTAdam_init :: "param_dict list \<Rightarrow> hyper \<Rightarrow> error + BERTAdam" where
  "BERTAdam_init ps a =
     (if (case lr a of None \<Rightarrow> False | Some l \<Rightarrow> \<not> l \<ge> 0.0) then
        Inl (ValueError ''Invalid learning rate: {} - should be >= 0.0''
               (case lr a of None \<Rightarrow> NoneVal | Some l \<Rightarrow> Num l))
      else if schedule a \<notin> set (map fst SCHEDULES) then
        Inl (ValueError ''Invalid schedule parameter: {}'' (Str (schedule a)))
      else if \<not> (0.0 \<le> warmup a \<and> warmup a < 1.0) \<and> \<not> warmup a = -1 then
        Inl (ValueError ''Invalid warmup: {} - should be in [0.0, 1.0[ or -1'' (Num (warmup a)))
      else if \<not> (0.0 \<le> b1 a \<and> b1 a < 1.0) then
        Inl (ValueError ''Invalid b1 parameter: {} - should be in [0.0, 1.0['' (Num (b1 a)))
      else if \<not> (0.0 \<le> b2 a \<and> b2 a < 1.0) then
        Inl (ValueError ''Invalid b2 parameter: {} - should be in [0.0, 1.0['' (Num (b2 a)))
      else if \<not> e a \<ge> 0.0 then
        Inl (ValueError ''Invalid epsilon value: {} - should be >= 0.0'' (Num (e a)))
      else
        Inr \<lparr>defaults = a, param_groups = map (add_param_group a) ps\<rparr>)"

subsection \<open>The update step\<close>

definition zeros_like :: "real list \<Rightarrow> real list" where
  "zeros_like xs = map (\<lambda>_. 0) xs"

text \<open>
  \<open>clip_grad_norm_(p, max_norm)\<close> of the tensor library, called on the one parameter:
  the gradient is scaled in place by \<open>max_norm / (norm + 1e-6)\<close> when that
  coefficient is below 1, \<open>norm\<close> being the 2-norm of the gradient.
\<close>

definition clip_grad_norm :: "real list \<Rightarrow> real \<Rightarrow> real list" where
  "clip_grad_norm g max_norm =
     (let total_norm = sqrt (sum_list (map (\<lambda>x. x * x) g));
          clip_coef = max_norm / (total_norm + 0.000001)
      in if clip_coef < 1 then map (\<lambda>x. x * clip_coef) g else g)"

text \<open>\<open>group['lr'] * s\<close>: a \<open>TypeError\<close> when the learning rate is \<open>None\<close>.\<close>

definition mul_lr :: "real option \<Rightarrow> real \<Rightarrow> error + real" where
  "mul_lr l s = (case l of None \<Rightarrow> Inl TypeError | Some v \<Rightarrow> Inr (v * s))"

definition bind_err :: "error + 'a \<Rightarrow> ('a \<Rightarrow> error + 'b) \<Rightarrow> error + 'b" where
  "bind_err r f = (case r of Inl err \<Rightarrow> Inl err | Inr v \<Rightarrow> f v)"

text \<open>
  Lines 137 to 145 of the source: the learning rate of this step, from the group and
  the parameter's step counter. In the last branch \<open>lr_scheduled\<close> is
  \<open>group['lr']\<close> itself; when that is \<open>None\<close> the product with the update in
  line 147 raises the \<open>TypeError\<close>, which is reported here (nothing is mutated in
  between).
\<close>

definition lr_scheduled :: "'a hyper_scheme \<Rightarrow> int \<Rightarrow> error + real" where
  "lr_scheduled g stp =
     (case map_of SCHEDULES (schedule g) of
        None \<Rightarrow> Inl (KeyError (schedule g))
      | Some schedule_fct \<Rightarrow>
          (case (case cycle_step g of
                   None \<Rightarrow> None
                 | Some c \<Rightarrow> if stp > c then Some c else None) of
             Some c \<Rightarrow>
               if c = 0 then Inl ZeroDivisionError
               else mul_lr (lr g) (1 - (real_of_int (stp mod c) / real_of_int c))
           | None \<Rightarrow>
               if t_total g \<noteq> -1 \<and> schedule g \<noteq> ''warmup_fix'' then
                 bind_err (py_div (real_of_int stp) (t_total g)) (\<lambda>x.
                 bind_err (schedule_fct x (warmup g)) (\<lambda>s.
                 mul_lr (lr g) s))
               else if schedule g = ''warmup_fix'' then
                 bind_err (schedule_fct (real_of_int stp) (warmup g * t_total g)) (\<lambda>s.
                 mul_lr (lr g) s)
               else
                 (case lr g of None \<Rightarrow> Inl TypeError | Some l \<Rightarrow> Inr l)))"

text \<open>Lines 104 to 112: the state of the parameter, created on its first update.\<close>

definition state_of :: "world \<Rightarrow> nat \<Rightarrow> pstate" where
  "state_of w p =
     (case state w p of
        None \<Rightarrow> \<lparr>step = 0, next_m = zeros_like (data (heap w p)),
                  next_v = zeros_like (data (heap w p))\<rparr>
      | Some s \<Rightarrow> s)"

text \<open>Lines 118 and 119: the gradient after the optional clipping.\<close>

definition clipped :: "'a hyper_scheme \<Rightarrow> real list \<Rightarrow> real list" where
  "clipped g gd =
     (if max_grad_norm g > 0 then clip_grad_norm gd (max_grad_norm g) else gd)"

text \<open>Lines 123 and 124: the two moving averages, element by element.\<close>

definition new_m :: "'a hyper_scheme \<Rightarrow> real list \<Rightarrow> real list \<Rightarrow> real list" where
  "new_m g m gd = (let beta1 = b1 g in map2 (\<lambda>m x. m * beta1 + (1 - beta1) * x) m gd)"

definition new_v :: "'a hyper_scheme \<Rightarrow> real list \<Rightarrow> real list \<Rightarrow> real list" where
  "new_v g v gd = (let beta2 = b2 g in map2 (\<lambda>v x. v * beta2 + (1 - beta2) * x * x) v gd)"

text \<open>Lines 125 to 135: the update, with the decoupled weight decay.\<close>

definition update_of :: "'a hyper_scheme \<Rightarrow> real list \<Rightarrow> real list \<Rightarrow> real list \<Rightarrow> real list" where
  "update_of g m v dat =
     (let upd = map2 (\<lambda>m v. m / (sqrt v + e g)) m v
      in if weight_decay_rate g > 0.0
         then map2 (\<lambda>u d. u + weight_decay_rate g * d) upd dat
         else upd)"

text \<open>
  The body of the inner loop (lines 98 to 150) for one parameter \<open>p\<close> of a group.
  The result is the exception raised, if any, and the world as the body left it: the
  state is created, the gradient clipped and the moments updated in place before the
  learning rate is computed, so these mutations stay when that computation raises.
  The gradient, the moments and the data have the shape of the parameter.
\<close>

definition update_param :: "group \<Rightarrow> nat \<Rightarrow> world \<Rightarrow> error option \<times> world" where
  "update_param g p w =
     (case grad (heap w p) of
        None \<Rightarrow> (None, w)
      | Some gr \<Rightarrow>
          if is_sparse gr then
            (Some (RuntimeError
               ''Adam does not support sparse gradients, please consider SparseAdam instead''), w)
          else
            let st = state_of w p;
                gd = clipped g (entries gr);
                m = new_m g (next_m st) gd;
                v = new_v g (next_v st) gd;
                st1 = st\<lparr>next_m := m, next_v := v\<rparr>;
                pobj = (heap w p)\<lparr>grad := Some (Gradient False gd)\<rparr>;
                w1 = w\<lparr>state := (state w)(p := Some st1), heap := (heap w)(p := pobj)\<rparr>;
                upd = update_of g m v (data pobj)
            in (case lr_scheduled g (step st) of
                  Inl err \<Rightarrow> (Some err, w1)
                | Inr lrs \<Rightarrow>
                    (None,
                     w1\<lparr>state := (state w1)(p := Some (st1\<lparr>step := step st1 + 1\<rparr>)),
                        heap := (heap w1)(p :=
                          pobj\<lparr>data := map2 (\<lambda>d u. d + (- (lrs * u))) (data pobj) upd\<rparr>)\<rparr>)))"

text \<open>The two loops of \<open>step\<close>; an exception ends the call.\<close>

fun step_params :: "group \<Rightarrow> nat list \<Rightarrow> world \<Rightarrow> error option \<times> world" where
  "step_params g [] w = (None, w)"
| "step_params g (p # ps) w =
     (case update_param g p w of
        (Some err, w') \<Rightarrow> (Some err, w')
      | (None, w') \<Rightarrow> step_params g ps w')"

fun step_groups :: "group list \<Rightarrow> world \<Rightarrow> error option \<times> world" where
  "step_groups [] w = (None, w)"
| "step_groups (g # gs) w =
     (case step_params g (params g) w of
        (Some err, w') \<Rightarrow> (Some err, w')
      | (None, w') \<Rightarrow> step_groups gs w')"

text \<open>
  \<open>BERTAdam.step(closure)\<close>. The closure is the caller's; it is modelled by the
  loss it returns. The call returns the loss, or raises.
\<close>

definition BERTAdam_step ::
  "BERTAdam \<Rightarrow> (unit \<Rightarrow> real) option \<Rightarrow> world \<Rightarrow> (error + real option) \<times> world" where
  "BERTAdam_step self closure w =
     (let loss = (case closure of None \<Rightarrow> None | Some c \<Rightarrow> Some (c ()))
      in case step_groups (param_groups self) w of
           (Some err, w') \<Rightarrow> (Inl err, w')
         | (None, w') \<Rightarrow> (Inr loss, w'))"

subsection \<open>The optimizer factory\<close>

definition no_decay :: "string list" where
  "no_decay = [''bias'', ''LayerNorm.bias'', ''LayerNorm.weight'']"

text \<open>\<open>any([nd in n for nd in no_decay])\<close>; \<open>in\<close> on strings is the substring test.\<close>

definition any_no_decay :: "string \<Rightarrow> bool" where
  "any_no_decay n = list_ex (\<lambda>nd. sublist nd n) no_decay"

text \<open>
  Lines 159 to 164: the list of \<open>model.named_parameters()\<close>, without the
  parameters whose name contains \<open>pooler\<close> when \<open>opt_pooler is False\<close>.
\<close>

definition param_optimizer :: "(string \<times> nat) list \<Rightarrow> bool \<Rightarrow> (string \<times> nat) list" where
  "param_optimizer named_parameters opt_pooler =
     (if opt_pooler = False
      then filter (\<lambda>n. \<not> sublist ''pooler'' (fst n)) named_parameters
      else named_parameters)"

text \<open>Lines 165 to 171: the list of two dictionaries \<open>optimizer_parameters\<close>.\<close>

definition optimizer_parameters ::
  "(string \<times> nat) list \<Rightarrow> bool \<Rightarrow> real \<Rightarrow> param_dict list" where
  "optimizer_parameters named_parameters opt_pooler wd =
     (let po = param_optimizer named_parameters opt_pooler
      in [ParamDict (map snd (filter (\<lambda>(n, p). \<not> any_no_decay n) po)) (Some wd),
          ParamDict (map snd (filter (\<lambda>(n, p). any_no_decay n) po)) (Some 0.0)])"

text \<open>
  What the factory returns: the optimizer of this file, or the external fused optimizer
  wrapped for reduced precision, of which only the arguments it is built from are kept.
  Whether the external package can be imported is the argument \<open>apex\<close>.
\<close>

datatype optimizer =
    Custom BERTAdam
  | FP16_Optimizer "param_dict list" "real option" real

definition get_optimization ::
  "bool \<Rightarrow> (string \<times> nat) list \<Rightarrow> bool \<Rightarrow> real option \<Rightarrow> real \<Rightarrow> string \<Rightarrow> real \<Rightarrow> real \<Rightarrow>
   real \<Rightarrow> bool \<Rightarrow> error + optimizer" where
  "get_optimization apex model float16 learning_rate total_steps sched warmup_rate wd mgn
     opt_pooler =
     (if \<not> (0.0 \<le> warmup_rate \<and> warmup_rate \<le> 1.0) then Inl AssertionError
      else
        let ops = optimizer_parameters model opt_pooler wd in
        if float16 then
          (if \<not> apex then
             Inl (ImportError
               ''Please install apex from https://www.github.com/nvidia/apex to use distributed and fp16 training.'')
           else Inr (FP16_Optimizer ops learning_rate mgn))
        else
          bind_err
            (BERTAdam_init ops
               ((default_args learning_rate)
                  \<lparr>warmup := warmup_rate, max_grad_norm := mgn, t_total := total_steps,
                   schedule := sched, weight_decay_rate := wd\<rparr>))
            (\<lambda>opt. Inr (Custom opt)))"

subsection \<open>The learning-rate rule as the specification words it\<close>



subsection \<open>Example configurations\<close>


text \<open>
  The keyword arguments \<open>lr=1.0, schedule='warmup_fix', weight_decay_rate=0,
  max_grad_norm=-1\<close>, the rest at their defaults (among them \<open>t_total=-1\<close>,
  \<open>warmup=-1\<close>, \<open>b1=0.9\<close>, \<open>b2=0.999\<close>, \<open>e=1e-6\<close>).
\<close>

definition args_fix :: hyper where
  "args_fix = (default_args (Some 1))
     \<lparr>schedule := ''warmup_fix'', weight_decay_rate := 0, max_grad_norm := -1\<rparr>"

text \<open>A world before the first update: no optimizer state; every parameter is the
  scalar 0 with the dense gradient 1.\<close>

definition w_fresh :: world where
  "w_fresh = \<lparr>state = (\<lambda>_. None),
              heap = (\<lambda>_. \<lparr>data = [0], grad = Some (Gradient False [1])\<rparr>)\<rparr>"

text \<open>
  A group with \<open>schedule='warmup_fix'\<close>, \<open>warmup=0.5\<close>, \<open>t_total=-1\<close>,
  learning rate 1, no weight decay, no clipping, \<open>b1 = b2 = e = 0\<close>; and a world in
  which parameter 0, of value 0, has been updated once and has the gradient 2.
\<close>

definition g_asc :: group where
  "g_asc = \<lparr>lr = Some 1, schedule = ''warmup_fix'', warmup = 0.5, t_total = -1,
      b1 = 0, b2 = 0, e = 0, weight_decay_rate = 0,
      max_grad_norm = -1, cycle_step = None, params = [0]\<rparr>"

definition w_asc :: world where
  "w_asc = \<lparr>state = (\<lambda>_. Some \<lparr>step = 1, next_m = [0], next_v = [0]\<rparr>),
            heap = (\<lambda>_. \<lparr>data = [0], grad = Some (Gradient False [2])\<rparr>)\<rparr>"

text \<open>
  An optimizer over two groups, parameter 0 in the first and parameter 1 in the second,
  with the default hyperparameters and learning rate 1; and a world in which parameter 1
  has a sparse gradient (the other parameters a dense one).
\<close>

definition g_first :: group where
  "g_first = add_param_group (default_args (Some 1)) (ParamDict [0] None)"

definition g_second :: group where
  "g_second = add_param_group (default_args (Some 1)) (ParamDict [1] (Some 0))"

definition opt_two :: BERTAdam where
  "opt_two = \<lparr>defaults = default_args (Some 1), param_groups = [g_first, g_second]\<rparr>"

definition w_sparse :: world where
  "w_sparse =
     \<lparr>state = (\<lambda>_. None),
      heap = (\<lambda>p. \<lparr>data = [0], grad = Some (Gradient (p = 1) [1])\<rparr>)\<rparr>"

text \<open>A model with four named parameters.\<close>

definition model_four :: "(string \<times> nat) list" where
  "model_four =
     [(''fc.weight'', 0), (''fc.bias'', 1), (''pooler.weight'', 2), (''LayerNorm.weight'', 3)]"

section \<open>Properties of the schedule functions\<close>



lemma warmup_fix_pos: "0 < ws \<Longrightarrow> warmup_fix s ws = Inr (min 1 (s / ws))"
  by (simp add: warmup_fix_def py_div_def)

text \<open>
  Claim C8. For a positive warmup\_step, warmup\_fix returns a value for every step, is
  non-decreasing in the step, and is exactly 1 for every step from warmup\_step on.
\<close>

theorem warmup_fix_mono_clamp:
  "0 < ws \<Longrightarrow>
     (\<exists>r. warmup_fix s ws = Inr r) \<and>
     (\<forall>s1 s2 r1 r2. s1 \<le> s2 \<and> warmup_fix s1 ws = Inr r1 \<and> warmup_fix s2 ws = Inr r2
        \<longrightarrow> r1 \<le> r2) \<and>
     (ws \<le> s \<longrightarrow> warmup_fix s ws = Inr 1)"
proof (intro conjI allI impI)
  assume ws: "0 < ws"
  show "\<exists>r. warmup_fix s ws = Inr r" using ws by (simp add: warmup_fix_pos)
  show "warmup_fix s ws = Inr 1" if "ws \<le> s"
    using ws that by (simp add: warmup_fix_pos)
  fix s1 s2 r1 r2
  assume h: "s1 \<le> s2 \<and> warmup_fix s1 ws = Inr r1 \<and> warmup_fix s2 ws = Inr r2"
  have "s1 / ws \<le> s2 / ws" using h ws by (simp add: divide_right_mono)
  then have "min 1 (s1 / ws) \<le> min 1 (s2 / ws)" by (simp add: min_def)
  moreover have "r1 = min 1 (s1 / ws)" "r2 = min 1 (s2 / ws)"
    using h ws by (simp_all add: warmup_fix_pos)
  ultimately show "r1 \<le> r2" by simp
qed

theorem warmup_fix_mono_clamp_witness:
  "warmup_fix 1 4 = Inr (1/4) \<and> warmup_fix 2 4 = Inr (1/2) \<and> warmup_fix 7 4 = Inr 1 \<and>
   (1/4 :: real) \<le> 1/2"
proof -
  have "warmup_fix 7 4 = Inr 1" using warmup_fix_mono_clamp [of 4 7] by simp
  moreover have "warmup_fix 1 4 = Inr (1/4)" "warmup_fix 2 4 = Inr (1/2)"
    by (simp_all add: warmup_fix_pos)
  ultimately show ?thesis by simp
qed




section \<open>The learning rate of a step\<close>

lemma schedule_names:
  "s \<in> set (map fst SCHEDULES) \<longleftrightarrow>
     s = ''warmup_cosine'' \<or> s = ''warmup_constant'' \<or> s = ''warmup_linear'' \<or> s = ''warmup_fix''"
  by (auto simp: SCHEDULES_def)

lemma SCHEDULES_lookup:
  "map_of SCHEDULES ''warmup_cosine'' = Some warmup_cosine"
  "map_of SCHEDULES ''warmup_constant'' = Some warmup_constant"
  "map_of SCHEDULES ''warmup_linear'' = Some warmup_linear"
  "map_of SCHEDULES ''warmup_fix'' = Some warmup_fix"
  by (simp_all add: SCHEDULES_def)







lemma update_param_dense:
  assumes "grad (heap w p) = Some gr" "\<not> is_sparse gr"
    and "lr_scheduled g (step (state_of w p)) = Inr lrs"
  shows "fst (update_param g p w) = None"
    and "state (snd (update_param g p w)) p =
           Some \<lparr>step = step (state_of w p) + 1,
                 next_m = new_m g (next_m (state_of w p)) (clipped g (entries gr)),
                 next_v = new_v g (next_v (state_of w p)) (clipped g (entries gr))\<rparr>"
    and "data (heap (snd (update_param g p w)) p) =
           map2 (\<lambda>d u. d + (- (lrs * u))) (data (heap w p))
             (update_of g (new_m g (next_m (state_of w p)) (clipped g (entries gr)))
                (new_v g (next_v (state_of w p)) (clipped g (entries gr))) (data (heap w p)))"
  using assms by (simp_all add: update_param_def Let_def)




section \<open>Construction\<close>








section \<open>warmup\_fix without a total number of steps\<close>

lemma lr_scheduled_fix_no_total:
  assumes "schedule g = ''warmup_fix''" "t_total g = -1" "0 < warmup g" "lr g = Some l"
    "cycle_step g = None"
  shows "lr_scheduled g stp = Inr (l * min 1 (real_of_int stp / (warmup g * (- 1))))"
  using assms
  by (simp add: lr_scheduled_def SCHEDULES_lookup bind_err_def mul_lr_def warmup_fix_def py_div_def)

lemma negative_rate:
  assumes "0 < (wu::real)" "0 < l" "1 \<le> (stp::int)"
  shows "l * min 1 (real_of_int stp / (wu * (- 1))) < 0"
proof -
  define q where "q = real_of_int stp / (wu * (- 1))"
  have "0 < real_of_int stp" using assms(3) by simp
  then have "0 < real_of_int stp / wu" using assms(1) by simp
  then have "q < 0" by (simp add: q_def)
  then have "min 1 q < 0" by simp
  with assms(2) have "l * min 1 q < 0" by (rule mult_pos_neg)
  then show ?thesis by (simp only: q_def)
qed

text \<open>
  Claim C10. With the schedule warmup\_fix, t\_total = -1, a warmup fraction > 0, a
  learning rate lr > 0, no cycle and a step counter \<ge> 1, the effective learning rate is
  lr * min(1, step / (warmup * (-1))), which is negative; an update of a parameter with a
  dense gradient then adds a positive multiple of the update to the parameter instead of
  subtracting one.
\<close>

theorem warmup_fix_without_total_ascends:
  "schedule g = ''warmup_fix'' \<and> t_total g = -1 \<and> 0 < warmup g \<and> lr g = Some l \<and> 0 < l \<and>
   cycle_step g = None \<and> 1 \<le> stp \<longrightarrow>
     lr_scheduled g stp = Inr (l * min 1 (real_of_int stp / (warmup g * (- 1)))) \<and>
     l * min 1 (real_of_int stp / (warmup g * (- 1))) < 0 \<and>
     (\<forall>w p gr. grad (heap w p) = Some gr \<and> \<not> is_sparse gr \<and> step (state_of w p) = stp \<longrightarrow>
        fst (update_param g p w) = None \<and>
        (\<exists>upd k. upd = update_of g (new_m g (next_m (state_of w p)) (clipped g (entries gr)))
                     (new_v g (next_v (state_of w p)) (clipped g (entries gr))) (data (heap w p)) \<and>
           0 < k \<and> k = - (l * min 1 (real_of_int stp / (warmup g * (- 1)))) \<and>
           data (heap (snd (update_param g p w)) p) =
             map2 (\<lambda>d u. d + k * u) (data (heap w p)) upd))"
proof (intro impI conjI allI)
  assume h: "schedule g = ''warmup_fix'' \<and> t_total g = -1 \<and> 0 < warmup g \<and> lr g = Some l \<and> 0 < l \<and>
   cycle_step g = None \<and> 1 \<le> stp"
  let ?r = "l * min 1 (real_of_int stp / (warmup g * (- 1)))"
  show r: "lr_scheduled g stp = Inr ?r"
    using h by (simp add: lr_scheduled_fix_no_total)
  show neg: "?r < 0" using h negative_rate by blast
  fix w p gr
  assume d: "grad (heap w p) = Some gr \<and> \<not> is_sparse gr \<and> step (state_of w p) = stp"
  then have s: "lr_scheduled g (step (state_of w p)) = Inr ?r" using r by simp
  show "fst (update_param g p w) = None"
    using d s update_param_dense(1) by blast
  have "data (heap (snd (update_param g p w)) p) =
           map2 (\<lambda>d u. d + (- (?r * u))) (data (heap w p))
             (update_of g (new_m g (next_m (state_of w p)) (clipped g (entries gr)))
                (new_v g (next_v (state_of w p)) (clipped g (entries gr))) (data (heap w p)))"
    using d s update_param_dense(3) by blast
  then show "\<exists>upd k. upd = update_of g (new_m g (next_m (state_of w p)) (clipped g (entries gr)))
                     (new_v g (next_v (state_of w p)) (clipped g (entries gr))) (data (heap w p)) \<and>
           0 < k \<and> k = - ?r \<and>
           data (heap (snd (update_param g p w)) p) =
             map2 (\<lambda>d u. d + k * u) (data (heap w p)) upd"
    using neg by simp
qed

theorem warmup_fix_without_total_ascends_witness:
  "lr_scheduled g_asc 1 = Inr (- 2) \<and> fst (update_param g_asc 0 w_asc) = None \<and>
   data (heap w_asc 0) = [0] \<and> data (heap (snd (update_param g_asc 0 w_asc)) 0) = [2]"
proof -
  have g: "schedule g_asc = ''warmup_fix''" "t_total g_asc = -1" "warmup g_asc = 0.5"
    "lr g_asc = Some 1" "cycle_step g_asc = None" "max_grad_norm g_asc = -1"
    "b1 g_asc = 0" "b2 g_asc = 0" "e g_asc = 0" "weight_decay_rate g_asc = 0"
    by (simp_all add: g_asc_def)
  have w: "grad (heap w_asc 0) = Some (Gradient False [2])" "data (heap w_asc 0) = [0]"
    "state_of w_asc 0 = \<lparr>step = 1, next_m = [0], next_v = [0]\<rparr>"
    by (simp_all add: w_asc_def state_of_def)
  have pre: "schedule g_asc = ''warmup_fix'' \<and> t_total g_asc = -1 \<and> 0 < warmup g_asc \<and>
      lr g_asc = Some 1 \<and> 0 < (1::real) \<and> cycle_step g_asc = None \<and> (1::int) \<le> 1"
    using g by simp
  note t = warmup_fix_without_total_ascends [of g_asc 1 1, rule_format, OF pre]
  have r: "lr_scheduled g_asc 1 = Inr (- 2)" using t g(3) by simp
  have d: "grad (heap w_asc 0) = Some (Gradient False [2]) \<and> \<not> is_sparse (Gradient False [2]) \<and>
      step (state_of w_asc 0) = 1"
    using w by simp
  have u: "update_of g_asc (new_m g_asc [0] (clipped g_asc [2])) (new_v g_asc [0] (clipped g_asc [2])) [0] = [1]"
    by (simp add: update_of_def new_m_def new_v_def clipped_def g)
  from t have t3: "fst (update_param g_asc 0 w_asc) = None \<and>
        (\<exists>upd k. upd = update_of g_asc (new_m g_asc (next_m (state_of w_asc 0)) (clipped g_asc (entries (Gradient False [2]))))
                     (new_v g_asc (next_v (state_of w_asc 0)) (clipped g_asc (entries (Gradient False [2])))) (data (heap w_asc 0)) \<and>
           0 < k \<and> k = - (1 * min 1 (real_of_int 1 / (warmup g_asc * (- 1)))) \<and>
           data (heap (snd (update_param g_asc 0 w_asc)) 0) =
             map2 (\<lambda>d u. d + k * u) (data (heap w_asc 0)) upd)"
    using d by blast
  then have "data (heap (snd (update_param g_asc 0 w_asc)) 0) = [2]"
    using u w g(3) by simp
  then show ?thesis using r t3 w by simp
qed

section \<open>One update of one parameter\<close>

lemma lr_scheduled_plain:
  assumes "t_total g = -1" "cycle_step g = None" "lr g = Some l"
    "schedule g \<in> {''warmup_cosine'', ''warmup_constant'', ''warmup_linear''}"
  shows "lr_scheduled g stp = Inr l"
  using assms by (auto simp: lr_scheduled_def SCHEDULES_lookup)

text \<open>
  The first Adam update of a scalar parameter under the cosine, constant or linear
  schedule: with no weight decay, no clipping, b1 = 0.9, b2 = 0.999, e = 1e-6,
  t\_total = -1, no cycle and zero moments, the moments become 0.1 g and 0.001 g * g and
  the parameter moves by -lr * update.
\<close>

lemma adam_first_update:
  assumes "weight_decay_rate g = 0" "max_grad_norm g = -1" "b1 g = 0.9" "b2 g = 0.999"
    "e g = 0.000001" "t_total g = -1" "cycle_step g = None" "lr g = Some l"
    "schedule g \<in> {''warmup_cosine'', ''warmup_constant'', ''warmup_linear''}"
    "grad (heap w p) = Some (Gradient False [gv])" "data (heap w p) = [old]"
    "next_m (state_of w p) = [0]" "next_v (state_of w p) = [0]"
  shows "fst (update_param g p w) = None"
    and "state (snd (update_param g p w)) p =
           Some \<lparr>step = step (state_of w p) + 1, next_m = [0.1 * gv], next_v = [0.001 * gv\<^sup>2]\<rparr>"
    and "data (heap (snd (update_param g p w)) p) =
           [old - l * (0.1 * gv / (sqrt (0.001 * gv\<^sup>2) + 0.000001))]"
proof -
  have r: "lr_scheduled g (step (state_of w p)) = Inr l"
    using assms by (simp add: lr_scheduled_plain)
  have s: "\<not> is_sparse (Gradient False [gv])" by simp
  have c: "clipped g (entries (Gradient False [gv])) = [gv]"
    using assms(2) by (simp add: clipped_def)
  have m: "new_m g [0] [gv] = [0.1 * gv]" using assms(3) by (simp add: new_m_def)
  have v: "new_v g [0] [gv] = [0.001 * gv\<^sup>2]"
    using assms(4) by (simp add: new_v_def power2_eq_square)
  have u: "update_of g [0.1 * gv] [0.001 * gv\<^sup>2] [old] =
             [0.1 * gv / (sqrt (0.001 * gv\<^sup>2) + 0.000001)]"
    using assms(1,5) by (simp add: update_of_def)
  show "fst (update_param g p w) = None"
    using update_param_dense(1) [OF assms(10) s r] .
  show "state (snd (update_param g p w)) p =
           Some \<lparr>step = step (state_of w p) + 1, next_m = [0.1 * gv], next_v = [0.001 * gv\<^sup>2]\<rparr>"
    using update_param_dense(2) [OF assms(10) s r] by (simp only: c m v assms(12,13))
  show "data (heap (snd (update_param g p w)) p) =
           [old - l * (0.1 * gv / (sqrt (0.001 * gv\<^sup>2) + 0.000001))]"
    using update_param_dense(3) [OF assms(10) s r]
    by (simp only: c m v u assms(11,12,13)) simp
qed


text \<open>
  Claim C1, on the schedule warmup\_fix. The optimizer is built with lr = 1,
  schedule = 'warmup\_fix', weight\_decay\_rate = 0, max\_grad\_norm = -1 and the defaults
  b1 = 0.9, b2 = 0.999, e = 1e-6, t\_total = -1, warmup = -1, and takes its first step on a
  scalar parameter 0 with gradient 1. The moments become 0.1 and 0.001 as claimed, but
  the effective learning rate is lr * min(1, 0 / 1) = 0: the parameter stays 0, where
  old - lr * update is negative.
\<close>

theorem first_update_with_warmup_fix:
  "\<exists>opt. BERTAdam_init [ParamDict [0] None] args_fix = Inr opt \<and>
     fst (BERTAdam_step opt None w_fresh) = Inr None \<and>
     state (snd (BERTAdam_step opt None w_fresh)) 0 =
       Some \<lparr>step = 1, next_m = [0.1], next_v = [0.001]\<rparr> \<and>
     data (heap w_fresh 0) = [0] \<and>
     data (heap (snd (BERTAdam_step opt None w_fresh)) 0) = [0] \<and>
     (0::real) - 1 * (0.1 / (sqrt 0.001 + 0.000001)) < 0"
proof -
  define g where "g = add_param_group args_fix (ParamDict [0] None)"
  have i: "BERTAdam_init [ParamDict [0] None] args_fix =
             Inr \<lparr>defaults = args_fix, param_groups = [g]\<rparr>"
    by (simp add: BERTAdam_init_def args_fix_def default_args_def SCHEDULES_def g_def)
  have g: "schedule g = ''warmup_fix''" "t_total g = -1" "warmup g = -1" "lr g = Some 1"
    "cycle_step g = None" "max_grad_norm g = -1" "b1 g = 0.9" "b2 g = 0.999"
    "e g = 0.000001" "weight_decay_rate g = 0" "params g = [0]"
    by (simp_all add: g_def add_param_group_def args_fix_def default_args_def)
  have w: "grad (heap w_fresh 0) = Some (Gradient False [1])" "data (heap w_fresh 0) = [0]"
    "state_of w_fresh 0 = \<lparr>step = 0, next_m = [0], next_v = [0]\<rparr>"
    by (simp_all add: w_fresh_def state_of_def zeros_like_def)
  have r: "lr_scheduled g (step (state_of w_fresh 0)) = Inr 0"
    by (simp add: w lr_scheduled_def g SCHEDULES_lookup bind_err_def mul_lr_def warmup_fix_def
          py_div_def)
  have s: "\<not> is_sparse (Gradient False [1])" by simp
  have c: "clipped g [1] = [1]"
    by (simp add: clipped_def g)
  have m: "new_m g [0] [1] = [0.1]" by (simp add: new_m_def g)
  have v: "new_v g [0] [1] = [0.001]" by (simp add: new_v_def g)
  have u: "update_of g [0.1] [0.001] [0] = [0.1 / (sqrt 0.001 + 0.000001)]"
    by (simp add: update_of_def g)
  have e1: "fst (update_param g 0 w_fresh) = None"
    using update_param_dense(1) [OF w(1) s r] .
  have e2: "state (snd (update_param g 0 w_fresh)) 0 =
       Some \<lparr>step = 1, next_m = [0.1], next_v = [0.001]\<rparr>"
    using update_param_dense(2) [OF w(1) s r] by (simp add: c m v w)
  have e3: "data (heap (snd (update_param g 0 w_fresh)) 0) = [0]"
  proof -
    note d = update_param_dense(3) [OF w(1) s r]
    have x: "data (heap (snd (update_param g 0 w_fresh)) 0) =
       map2 (\<lambda>d u. d + (- (0 * u))) [0] (update_of g [0.1] [0.001] [0])"
      using d by (simp add: c m v w)
    show ?thesis unfolding x u by simp
  qed
  have sn: "BERTAdam_step \<lparr>defaults = args_fix, param_groups = [g]\<rparr> None w_fresh =
      (Inr None, snd (update_param g 0 w_fresh))"
    using e1 by (cases "update_param g 0 w_fresh") (simp add: BERTAdam_step_def g(11))
  have pos: "(0::real) < 0.1 / (sqrt 0.001 + 0.000001)"
    by (simp add: add_pos_pos)
  show ?thesis
    using i sn e2 e3 w(2) pos by simp
qed

section \<open>The loops of the update call\<close>

lemma update_param_sparse:
  "grad (heap w p) = Some gr \<Longrightarrow> is_sparse gr \<Longrightarrow>
     update_param g p w =
       (Some (RuntimeError
          ''Adam does not support sparse gradients, please consider SparseAdam instead''), w)"
  by (simp add: update_param_def)

lemma update_param_absent: "grad (heap w p) = None \<Longrightarrow> update_param g p w = (None, w)"
  by (simp add: update_param_def)

lemma update_param_frame:
  "q \<noteq> p \<Longrightarrow> state (snd (update_param g p w)) q = state w q \<and>
               heap (snd (update_param g p w)) q = heap w q"
  by (simp add: update_param_def Let_def split: option.splits sum.splits)

text \<open>An update keeps, for every parameter, whether it has a gradient and whether that gradient is sparse.\<close>

lemma update_param_grad_kind:
  "map_option is_sparse (grad (heap (snd (update_param g p w)) q)) =
   map_option is_sparse (grad (heap w q))"
  by (simp add: update_param_def Let_def split: option.splits sum.splits)

lemma step_state_of: "step (state_of w p) = (case state w p of None \<Rightarrow> 0 | Some s \<Rightarrow> step s)"
  by (simp add: state_of_def split: option.splits)

lemma update_param_step:
  "step (state_of (snd (update_param g p w)) q) =
     step (state_of w q) +
       (if q = p \<and> grad (heap w p) \<noteq> None \<and> fst (update_param g p w) = None then 1 else 0)"
  by (auto simp: update_param_def Let_def step_state_of split: option.splits sum.splits)


lemma grad_absent_kept:
  "(grad (heap (snd (update_param g p w)) q) = None) = (grad (heap w q) = None)"
  using update_param_grad_kind [of g p w q] by (metis map_option_is_None)

lemma step_params_Cons:
  "step_params g (p # ps) w =
     (if fst (update_param g p w) = None then step_params g ps (snd (update_param g p w))
      else update_param g p w)"
  by (cases "update_param g p w") (auto split: option.splits)

lemma step_groups_Cons:
  "step_groups (g # gs) w =
     (if fst (step_params g (params g) w) = None
      then step_groups gs (snd (step_params g (params g) w))
      else step_params g (params g) w)"
  by (cases "step_params g (params g) w") (auto split: option.splits)

lemma step_params_grad_absent:
  "(grad (heap (snd (step_params g ps w)) q) = None) = (grad (heap w q) = None)"
proof (induction ps arbitrary: w)
  case Nil
  then show ?case by simp
next
  case (Cons p ps)
  show ?case
    unfolding step_params_Cons using Cons.IH grad_absent_kept by simp
qed

lemma step_params_count:
  "fst (step_params g ps w) = None \<Longrightarrow>
     step (state_of (snd (step_params g ps w)) q) =
       step (state_of w q) + (if grad (heap w q) = None then 0 else int (count_list ps q))"
proof (induction ps arbitrary: w)
  case Nil
  then show ?case by simp
next
  case (Cons p ps)
  let ?w = "snd (update_param g p w)"
  have ok: "fst (update_param g p w) = None"
    using Cons.prems unfolding step_params_Cons by (auto split: if_splits)
  then have rest: "fst (step_params g ps ?w) = None"
    using Cons.prems unfolding step_params_Cons by simp
  have "step (state_of (snd (step_params g ps ?w)) q) =
          step (state_of ?w q) + (if grad (heap ?w q) = None then 0 else int (count_list ps q))"
    using Cons.IH [OF rest] .
  then show ?case
    unfolding step_params_Cons using ok
    by (simp add: update_param_step grad_absent_kept)
qed

lemma step_params_mono:
  "step (state_of w q) \<le> step (state_of (snd (step_params g ps w)) q)"
proof (induction ps arbitrary: w)
  case Nil
  then show ?case by simp
next
  case (Cons p ps)
  have "step (state_of w q) \<le> step (state_of (snd (update_param g p w)) q)"
    by (simp add: update_param_step)
  also have "\<dots> \<le> step (state_of (snd (step_params g ps (snd (update_param g p w)))) q)"
    by (rule Cons.IH)
  finally show ?case
    unfolding step_params_Cons by (simp add: update_param_step)
qed

lemma step_groups_grad_absent:
  "(grad (heap (snd (step_groups gs w)) q) = None) = (grad (heap w q) = None)"
proof (induction gs arbitrary: w)
  case Nil
  then show ?case by simp
next
  case (Cons g gs)
  show ?case
    unfolding step_groups_Cons using Cons.IH step_params_grad_absent by simp
qed

lemma step_groups_count:
  "fst (step_groups gs w) = None \<Longrightarrow>
     step (state_of (snd (step_groups gs w)) q) =
       step (state_of w q) +
         (if grad (heap w q) = None then 0 else int (count_list (concat (map params gs)) q))"
proof (induction gs arbitrary: w)
  case Nil
  then show ?case by simp
next
  case (Cons g gs)
  let ?w = "snd (step_params g (params g) w)"
  have ok: "fst (step_params g (params g) w) = None"
    using Cons.prems unfolding step_groups_Cons by (auto split: if_splits)
  then have rest: "fst (step_groups gs ?w) = None"
    using Cons.prems unfolding step_groups_Cons by simp
  show ?case
    unfolding step_groups_Cons using ok Cons.IH [OF rest] step_params_count [OF ok]
    by (simp add: step_params_grad_absent)
qed

lemma step_groups_mono:
  "step (state_of w q) \<le> step (state_of (snd (step_groups gs w)) q)"
proof (induction gs arbitrary: w)
  case Nil
  then show ?case by simp
next
  case (Cons g gs)
  have "step (state_of w q) \<le> step (state_of (snd (step_params g (params g) w)) q)"
    by (rule step_params_mono)
  also have "\<dots> \<le> step (state_of (snd (step_groups gs (snd (step_params g (params g) w)))) q)"
    by (rule Cons.IH)
  finally show ?case
    unfolding step_groups_Cons using step_params_mono by simp
qed


lemma sparse_kept_update:
  assumes "grad (heap w p) = Some gr" "is_sparse gr"
  shows "state (snd (update_param g q w)) p = state w p \<and>
         heap (snd (update_param g q w)) p = heap w p"
proof (cases "q = p")
  case True
  then show ?thesis using assms by (simp add: update_param_sparse)
next
  case False
  then show ?thesis using update_param_frame [of p q g w] by simp
qed

lemma sparse_kept_params:
  assumes "grad (heap w p) = Some gr" "is_sparse gr"
  shows "state (snd (step_params g ps w)) p = state w p \<and>
         heap (snd (step_params g ps w)) p = heap w p"
  using assms
proof (induction ps arbitrary: w)
  case Nil
  then show ?case by simp
next
  case (Cons q ps)
  note k = sparse_kept_update [OF Cons.prems, of g q]
  then have "grad (heap (snd (update_param g q w)) p) = Some gr" using Cons.prems by simp
  from Cons.IH [OF this Cons.prems(2)] k show ?case
    unfolding step_params_Cons by simp
qed

lemma sparse_kept_groups:
  assumes "grad (heap w p) = Some gr" "is_sparse gr"
  shows "state (snd (step_groups gs w)) p = state w p \<and>
         heap (snd (step_groups gs w)) p = heap w p"
  using assms
proof (induction gs arbitrary: w)
  case Nil
  then show ?case by simp
next
  case (Cons g gs)
  note k = sparse_kept_params [OF Cons.prems, of g "params g"]
  then have "grad (heap (snd (step_params g (params g) w)) p) = Some gr"
    using Cons.prems by simp
  from Cons.IH [OF this Cons.prems(2)] k show ?case
    unfolding step_groups_Cons by simp
qed

lemma sparse_fails_params:
  assumes "p \<in> set ps" "grad (heap w p) = Some gr" "is_sparse gr"
  shows "fst (step_params g ps w) \<noteq> None"
  using assms
proof (induction ps arbitrary: w)
  case Nil
  then show ?case by simp
next
  case (Cons q ps)
  show ?case
  proof (cases "fst (update_param g q w) = None")
    case False
    then show ?thesis unfolding step_params_Cons by auto
  next
    case True
    then have "q \<noteq> p" using Cons.prems by (auto simp: update_param_sparse)
    then have "p \<in> set ps" using Cons.prems by simp
    moreover have "grad (heap (snd (update_param g q w)) p) = Some gr"
      using sparse_kept_update [OF Cons.prems(2,3), of g q] Cons.prems by simp
    ultimately have "fst (step_params g ps (snd (update_param g q w))) \<noteq> None"
      using Cons.IH Cons.prems(3) by blast
    then show ?thesis unfolding step_params_Cons using True by simp
  qed
qed

lemma sparse_fails_groups:
  assumes "p \<in> set (concat (map params gs))" "grad (heap w p) = Some gr" "is_sparse gr"
  shows "fst (step_groups gs w) \<noteq> None"
  using assms
proof (induction gs arbitrary: w)
  case Nil
  then show ?case by simp
next
  case (Cons g gs)
  show ?case
  proof (cases "fst (step_params g (params g) w) = None")
    case False
    then show ?thesis unfolding step_groups_Cons by auto
  next
    case True
    then have "p \<notin> set (params g)"
      using sparse_fails_params [OF _ Cons.prems(2,3)] by blast
    then have "p \<in> set (concat (map params gs))" using Cons.prems by simp
    moreover have "grad (heap (snd (step_params g (params g) w)) p) = Some gr"
      using sparse_kept_params [OF Cons.prems(2,3), of g "params g"] Cons.prems by simp
    ultimately have "fst (step_groups gs (snd (step_params g (params g) w))) \<noteq> None"
      using Cons.IH Cons.prems(3) by blast
    then show ?thesis unfolding step_groups_Cons using True by simp
  qed
qed

lemma step_params_append:
  "step_params g (ps @ qs) w =
     (if fst (step_params g ps w) = None then step_params g qs (snd (step_params g ps w))
      else step_params g ps w)"
proof (induction ps arbitrary: w)
  case Nil
  then show ?case by simp
next
  case (Cons p ps)
  show ?case
    unfolding append_Cons step_params_Cons using Cons.IH by auto
qed

lemma step_groups_append:
  "step_groups (gs @ hs) w =
     (if fst (step_groups gs w) = None then step_groups hs (snd (step_groups gs w))
      else step_groups gs w)"
proof (induction gs arbitrary: w)
  case Nil
  then show ?case by simp
next
  case (Cons g gs)
  show ?case
    unfolding append_Cons step_groups_Cons using Cons.IH by auto
qed

lemma sparse_reached:
  assumes "grad (heap w p) = Some gr" "is_sparse gr"
    and "fst (step_groups gs1 w) = None"
    and "params g = ps1 @ p # ps2"
    and "fst (step_params g ps1 (snd (step_groups gs1 w))) = None"
  shows "fst (step_groups (gs1 @ g # gs2) w) =
           Some (RuntimeError
             ''Adam does not support sparse gradients, please consider SparseAdam instead'')"
proof -
  let ?w1 = "snd (step_groups gs1 w)"
  let ?w2 = "snd (step_params g ps1 ?w1)"
  have "heap ?w1 p = heap w p" using sparse_kept_groups [OF assms(1,2)] by simp
  then have g1: "grad (heap ?w1 p) = Some gr" using assms(1) by simp
  have "heap ?w2 p = heap ?w1 p" using sparse_kept_params [OF g1 assms(2)] by simp
  then have g2: "grad (heap ?w2 p) = Some gr" using g1 by simp
  have "fst (step_params g (ps1 @ p # ps2) ?w1) =
          Some (RuntimeError
             ''Adam does not support sparse gradients, please consider SparseAdam instead'')"
    unfolding step_params_append step_params_Cons
    using assms(5) update_param_sparse [OF g2 assms(2)] by simp
  then show ?thesis
    unfolding step_groups_append step_groups_Cons using assms(3,4) by simp
qed


lemma BERTAdam_step_fst:
  "fst (BERTAdam_step opt cl w) =
     (case fst (step_groups (param_groups opt) w) of
        None \<Rightarrow> Inr (case cl of None \<Rightarrow> None | Some c \<Rightarrow> Some (c ()))
      | Some err \<Rightarrow> Inl err)"
  by (cases "step_groups (param_groups opt) w")
     (auto simp: BERTAdam_step_def split: option.splits)

lemma BERTAdam_step_snd:
  "snd (BERTAdam_step opt cl w) = snd (step_groups (param_groups opt) w)"
  by (cases "step_groups (param_groups opt) w")
     (auto simp: BERTAdam_step_def split: option.splits)

lemma BERTAdam_step_returns:
  "(\<exists>loss. fst (BERTAdam_step opt cl w) = Inr loss) \<longleftrightarrow>
     fst (step_groups (param_groups opt) w) = None"
  by (auto simp: BERTAdam_step_fst split: option.splits)

lemma BERTAdam_step_raises:
  "fst (BERTAdam_step opt cl w) = Inl err \<longleftrightarrow>
     fst (step_groups (param_groups opt) w) = Some err"
  by (auto simp: BERTAdam_step_fst split: option.splits)

text \<open>When the learning rate of the group is defined at every step, an update raises only for a sparse gradient.\<close>

lemma update_param_errors:
  assumes "\<forall>n. \<exists>r. lr_scheduled g n = Inr r"
  shows "fst (update_param g p w) =
     (case grad (heap w p) of
        None \<Rightarrow> None
      | Some gr \<Rightarrow>
          if is_sparse gr
          then Some (RuntimeError
             ''Adam does not support sparse gradients, please consider SparseAdam instead'')
          else None)"
proof (cases "grad (heap w p)")
  case None
  then show ?thesis by (simp add: update_param_absent)
next
  case (Some gr)
  show ?thesis
  proof (cases "is_sparse gr")
    case True
    then show ?thesis using Some by (simp add: update_param_sparse)
  next
    case False
    obtain r where "lr_scheduled g (step (state_of w p)) = Inr r" using assms by blast
    then show ?thesis using Some False update_param_dense(1) by simp
  qed
qed

lemma step_params_errors:
  assumes "\<forall>n. \<exists>r. lr_scheduled g n = Inr r" "fst (step_params g ps w) = Some err"
  shows "err = RuntimeError
             ''Adam does not support sparse gradients, please consider SparseAdam instead''"
  using assms(2)
proof (induction ps arbitrary: w)
  case Nil
  then show ?case by simp
next
  case (Cons p ps)
  show ?case
  proof (cases "fst (update_param g p w) = None")
    case True
    then show ?thesis using Cons unfolding step_params_Cons by simp
  next
    case False
    then have "fst (update_param g p w) = Some err"
      using Cons.prems unfolding step_params_Cons by auto
    then show ?thesis
      unfolding update_param_errors [OF assms(1)]
      by (auto split: option.splits if_splits)
  qed
qed

lemma step_groups_errors:
  assumes "\<forall>g \<in> set gs. \<forall>n. \<exists>r. lr_scheduled g n = Inr r" "fst (step_groups gs w) = Some err"
  shows "err = RuntimeError
             ''Adam does not support sparse gradients, please consider SparseAdam instead''"
  using assms
proof (induction gs arbitrary: w)
  case Nil
  then show ?case by simp
next
  case (Cons g gs)
  show ?case
  proof (cases "fst (step_params g (params g) w) = None")
    case True
    then show ?thesis using Cons unfolding step_groups_Cons by simp
  next
    case False
    then have "fst (step_params g (params g) w) = Some err"
      using Cons.prems unfolding step_groups_Cons by auto
    moreover have "\<forall>n. \<exists>r. lr_scheduled g n = Inr r" using Cons.prems(1) by simp
    ultimately show ?thesis using step_params_errors by blast
  qed
qed

text \<open>The loops return when no learning rate fails and no gradient is sparse.\<close>

lemma step_params_returns:
  assumes "\<forall>n. \<exists>r. lr_scheduled g n = Inr r"
    "\<forall>q gr. grad (heap w q) = Some gr \<longrightarrow> \<not> is_sparse gr"
  shows "fst (step_params g ps w) = None"
  using assms(2)
proof (induction ps arbitrary: w)
  case Nil
  then show ?case by simp
next
  case (Cons p ps)
  have ok: "fst (update_param g p w) = None"
    unfolding update_param_errors [OF assms(1)] using Cons.prems
    by (auto split: option.splits)
  have "\<forall>q gr. grad (heap (snd (update_param g p w)) q) = Some gr \<longrightarrow> \<not> is_sparse gr"
  proof (intro allI impI)
    fix q gr
    assume a: "grad (heap (snd (update_param g p w)) q) = Some gr"
    then obtain gr' where "grad (heap w q) = Some gr'" "is_sparse gr' = is_sparse gr"
      using update_param_grad_kind [of g p w q] by (cases "grad (heap w q)") auto
    then show "\<not> is_sparse gr" using Cons.prems by auto
  qed
  then show ?case unfolding step_params_Cons using ok Cons.IH by simp
qed

lemma step_params_grad_kind:
  "map_option is_sparse (grad (heap (snd (step_params g ps w)) q)) =
   map_option is_sparse (grad (heap w q))"
proof (induction ps arbitrary: w)
  case Nil
  then show ?case by simp
next
  case (Cons p ps)
  show ?case
    unfolding step_params_Cons using Cons.IH update_param_grad_kind by simp
qed

lemma step_groups_returns:
  assumes "\<forall>g \<in> set gs. \<forall>n. \<exists>r. lr_scheduled g n = Inr r"
    "\<forall>q gr. grad (heap w q) = Some gr \<longrightarrow> \<not> is_sparse gr"
  shows "fst (step_groups gs w) = None"
  using assms
proof (induction gs arbitrary: w)
  case Nil
  then show ?case by simp
next
  case (Cons g gs)
  have ok: "fst (step_params g (params g) w) = None"
    using step_params_returns Cons.prems by simp
  have "\<forall>q gr. grad (heap (snd (step_params g (params g) w)) q) = Some gr \<longrightarrow> \<not> is_sparse gr"
  proof (intro allI impI)
    fix q gr
    assume a: "grad (heap (snd (step_params g (params g) w)) q) = Some gr"
    then obtain gr' where "grad (heap w q) = Some gr'" "is_sparse gr' = is_sparse gr"
      using step_params_grad_kind [of g "params g" w q] by (cases "grad (heap w q)") auto
    then show "\<not> is_sparse gr" using Cons.prems by auto
  qed
  then show ?case unfolding step_groups_Cons using ok Cons.IH Cons.prems(1) by simp
qed

section \<open>Sparse gradients\<close>

lemma opt_two_groups: "param_groups opt_two = [g_first, g_second]"
  by (simp add: opt_two_def)

lemma opt_two_params: "params g_first = [0]" "params g_second = [1]"
  by (simp_all add: g_first_def g_second_def add_param_group_def)

lemma opt_two_lr: "lr_scheduled g_first n = Inr 1" "lr_scheduled g_second n = Inr 1"
  by (rule lr_scheduled_plain;
      simp add: g_first_def g_second_def add_param_group_def default_args_def)+

text \<open>
  Claim C6. If the gradient of a parameter is sparse, the update call leaves the state
  and the value of that parameter as they were; when the parameter is listed in a group
  the call fails; and the failure is the unsupported-operation error
  (\<open>RuntimeError\<close>) whenever the loops reach the parameter, that is when the
  parameters before it were processed without an exception, in particular whenever no
  learning-rate computation of any group can fail.
\<close>

theorem sparse_gradient_raises:
  "grad (heap w p) = Some gr \<and> is_sparse gr \<longrightarrow>
     state (snd (BERTAdam_step opt cl w)) p = state w p \<and>
     heap (snd (BERTAdam_step opt cl w)) p = heap w p \<and>
     (p \<in> set (concat (map params (param_groups opt))) \<longrightarrow>
        (\<exists>err. fst (BERTAdam_step opt cl w) = Inl err)) \<and>
     (\<forall>gs1 g gs2 ps1 ps2.
        param_groups opt = gs1 @ g # gs2 \<and> params g = ps1 @ p # ps2 \<and>
        fst (step_groups gs1 w) = None \<and>
        fst (step_params g ps1 (snd (step_groups gs1 w))) = None \<longrightarrow>
          fst (BERTAdam_step opt cl w) =
            Inl (RuntimeError
              ''Adam does not support sparse gradients, please consider SparseAdam instead'')) \<and>
     (p \<in> set (concat (map params (param_groups opt))) \<and>
      (\<forall>g \<in> set (param_groups opt). \<forall>n. \<exists>r. lr_scheduled g n = Inr r) \<longrightarrow>
          fst (BERTAdam_step opt cl w) =
            Inl (RuntimeError
              ''Adam does not support sparse gradients, please consider SparseAdam instead''))"
proof (intro impI conjI allI)
  assume a: "grad (heap w p) = Some gr \<and> is_sparse gr"
  then have gr: "grad (heap w p) = Some gr" and sp: "is_sparse gr" by simp_all
  show "state (snd (BERTAdam_step opt cl w)) p = state w p"
    using sparse_kept_groups [OF gr sp] by (simp add: BERTAdam_step_snd)
  show "heap (snd (BERTAdam_step opt cl w)) p = heap w p"
    using sparse_kept_groups [OF gr sp] by (simp add: BERTAdam_step_snd)
  show "\<exists>err. fst (BERTAdam_step opt cl w) = Inl err"
    if l: "p \<in> set (concat (map params (param_groups opt)))"
  proof -
    obtain err where "fst (step_groups (param_groups opt) w) = Some err"
      using sparse_fails_groups [OF l gr sp] by blast
    then show ?thesis by (simp add: BERTAdam_step_fst)
  qed
  show "fst (BERTAdam_step opt cl w) =
            Inl (RuntimeError
              ''Adam does not support sparse gradients, please consider SparseAdam instead'')"
    if "param_groups opt = gs1 @ g # gs2 \<and> params g = ps1 @ p # ps2 \<and>
        fst (step_groups gs1 w) = None \<and>
        fst (step_params g ps1 (snd (step_groups gs1 w))) = None" for gs1 g gs2 ps1 ps2
    using sparse_reached [OF gr sp, of gs1 g ps1 ps2 gs2] that
    by (simp add: BERTAdam_step_raises)
  show "fst (BERTAdam_step opt cl w) =
            Inl (RuntimeError
              ''Adam does not support sparse gradients, please consider SparseAdam instead'')"
    if h: "p \<in> set (concat (map params (param_groups opt))) \<and>
      (\<forall>g \<in> set (param_groups opt). \<forall>n. \<exists>r. lr_scheduled g n = Inr r)"
  proof -
    obtain err where e: "fst (step_groups (param_groups opt) w) = Some err"
      using sparse_fails_groups [OF _ gr sp] h by blast
    then have "err = RuntimeError
              ''Adam does not support sparse gradients, please consider SparseAdam instead''"
      using step_groups_errors h by blast
    then show ?thesis using e by (simp add: BERTAdam_step_raises)
  qed
qed

theorem sparse_gradient_raises_witness:
  "grad (heap w_sparse 1) = Some (Gradient True [1]) \<and>
   fst (BERTAdam_step opt_two None w_sparse) =
     Inl (RuntimeError
       ''Adam does not support sparse gradients, please consider SparseAdam instead'') \<and>
   state (snd (BERTAdam_step opt_two None w_sparse)) 1 = None \<and>
   heap (snd (BERTAdam_step opt_two None w_sparse)) 1 = \<lparr>data = [0], grad = Some (Gradient True [1])\<rparr>"
proof -
  have h: "heap w_sparse 1 = \<lparr>data = [0], grad = Some (Gradient True [1])\<rparr>"
    and s: "state w_sparse 1 = None"
    by (simp_all add: w_sparse_def)
  have pre: "grad (heap w_sparse 1) = Some (Gradient True [1]) \<and> is_sparse (Gradient True [1])"
    using h by simp
  have l: "(1::nat) \<in> set (concat (map params (param_groups opt_two))) \<and>
      (\<forall>g \<in> set (param_groups opt_two). \<forall>n. \<exists>r. lr_scheduled g n = Inr r)"
    by (simp add: opt_two_groups opt_two_params opt_two_lr)
  note t = sparse_gradient_raises [of w_sparse 1 "Gradient True [1]" opt_two None, rule_format, OF pre]
  have "fst (BERTAdam_step opt_two None w_sparse) =
     Inl (RuntimeError
       ''Adam does not support sparse gradients, please consider SparseAdam instead'')"
    using t l by blast
  moreover have "state (snd (BERTAdam_step opt_two None w_sparse)) 1 = None"
    using t s by metis
  moreover have "heap (snd (BERTAdam_step opt_two None w_sparse)) 1 =
      \<lparr>data = [0], grad = Some (Gradient True [1])\<rparr>"
    using t h by metis
  moreover have "fst (BERTAdam_step opt_two None w_sparse) =
     Inl (RuntimeError
       ''Adam does not support sparse gradients, please consider SparseAdam instead'')"
  proof -
    have d: "param_groups opt_two = [g_first] @ g_second # [] \<and> params g_second = [] @ 1 # []"
      by (simp add: opt_two_groups opt_two_params)
    have "fst (update_param g_first 0 w_sparse) = None"
      by (simp add: update_param_errors opt_two_lr w_sparse_def)
    then have "fst (step_groups [g_first] w_sparse) = None"
      unfolding step_groups_Cons step_params_Cons opt_two_params by simp
    then show ?thesis using t d by (metis step_params.simps(1) fst_conv)
  qed
  ultimately show ?thesis using pre by blast
qed

section \<open>The step counter\<close>

lemma step_groups_grad_kind:
  "map_option is_sparse (grad (heap (snd (step_groups gs w)) q)) =
   map_option is_sparse (grad (heap w q))"
proof (induction gs arbitrary: w)
  case Nil
  then show ?case by simp
next
  case (Cons g gs)
  show ?case
    unfolding step_groups_Cons using Cons.IH step_params_grad_kind by simp
qed

lemma no_sparse_kept:
  assumes "\<forall>q gr. grad (heap w q) = Some gr \<longrightarrow> \<not> is_sparse gr"
  shows "\<forall>q gr. grad (heap (snd (step_groups gs w)) q) = Some gr \<longrightarrow> \<not> is_sparse gr"
proof (intro allI impI)
  fix q gr
  assume "grad (heap (snd (step_groups gs w)) q) = Some gr"
  then obtain gr' where "grad (heap w q) = Some gr'" "is_sparse gr' = is_sparse gr"
    using step_groups_grad_kind [of gs w q] by (cases "grad (heap w q)") auto
  then show "\<not> is_sparse gr" using assms by auto
qed

text \<open>
  Claim C7. The step counter of a parameter (0 before its state is created) never
  decreases in an update call. In a call that returns, it grows by the number of times
  the parameter is listed in the groups when the parameter has a gradient, and not at
  all when the gradient is absent, whatever the other parameters and groups are; so for
  a parameter listed once with a gradient it grows by exactly 1, and by exactly 1 again
  in the next call.
\<close>

theorem step_counter_increments:
  "step (state_of w p) \<le> step (state_of (snd (BERTAdam_step opt cl w)) p) \<and>
   ((\<exists>loss. fst (BERTAdam_step opt cl w) = Inr loss) \<longrightarrow>
      step (state_of (snd (BERTAdam_step opt cl w)) p) =
        step (state_of w p) +
          (if grad (heap w p) = None then 0
           else int (count_list (concat (map params (param_groups opt))) p))) \<and>
   ((\<exists>loss. fst (BERTAdam_step opt cl w) = Inr loss) \<and> grad (heap w p) \<noteq> None \<and>
    count_list (concat (map params (param_groups opt))) p = 1 \<longrightarrow>
      step (state_of (snd (BERTAdam_step opt cl w)) p) = step (state_of w p) + 1 \<and>
      ((\<exists>loss. fst (BERTAdam_step opt cl' (snd (BERTAdam_step opt cl w))) = Inr loss) \<longrightarrow>
         step (state_of (snd (BERTAdam_step opt cl' (snd (BERTAdam_step opt cl w)))) p) =
           step (state_of w p) + 2))"
proof (intro conjI impI)
  let ?gs = "param_groups opt"
  let ?w1 = "snd (BERTAdam_step opt cl w)"
  show "step (state_of w p) \<le> step (state_of ?w1 p)"
    by (simp add: BERTAdam_step_snd step_groups_mono)
  have c: "step (state_of (snd (BERTAdam_step opt c' w')) p) =
        step (state_of w' p) +
          (if grad (heap w' p) = None then 0 else int (count_list (concat (map params ?gs)) p))"
    if "\<exists>loss. fst (BERTAdam_step opt c' w') = Inr loss" for w' c'
  proof -
    have "fst (step_groups ?gs w') = None"
      using that by (simp add: BERTAdam_step_returns)
    from step_groups_count [OF this, of p] show ?thesis
      by (simp only: BERTAdam_step_snd)
  qed
  show "step (state_of ?w1 p) =
        step (state_of w p) +
          (if grad (heap w p) = None then 0 else int (count_list (concat (map params ?gs)) p))"
    if "\<exists>loss. fst (BERTAdam_step opt cl w) = Inr loss"
    using that by (rule c)
  assume h: "(\<exists>loss. fst (BERTAdam_step opt cl w) = Inr loss) \<and> grad (heap w p) \<noteq> None \<and>
    count_list (concat (map params ?gs)) p = 1"
  then show one: "step (state_of ?w1 p) = step (state_of w p) + 1"
    using c [of cl w] by simp
  assume r: "\<exists>loss. fst (BERTAdam_step opt cl' ?w1) = Inr loss"
  have "grad (heap ?w1 p) \<noteq> None"
    using h by (simp add: BERTAdam_step_snd step_groups_grad_absent)
  then have "step (state_of (snd (BERTAdam_step opt cl' ?w1)) p) = step (state_of ?w1 p) + 1"
    using c [OF r] h by simp
  then show "step (state_of (snd (BERTAdam_step opt cl' ?w1)) p) = step (state_of w p) + 2"
    using one by simp
qed

theorem step_counter_increments_witness:
  "fst (BERTAdam_step opt_two None w_fresh) = Inr None \<and>
   fst (BERTAdam_step opt_two None (snd (BERTAdam_step opt_two None w_fresh))) = Inr None \<and>
   grad (heap w_fresh 0) = Some (Gradient False [1]) \<and>
   step (state_of w_fresh 0) = 0 \<and>
   step (state_of (snd (BERTAdam_step opt_two None w_fresh)) 0) = 1 \<and>
   step (state_of (snd (BERTAdam_step opt_two None (snd (BERTAdam_step opt_two None w_fresh)))) 0) = 2"
proof -
  let ?w1 = "snd (BERTAdam_step opt_two None w_fresh)"
  have lrs: "\<forall>g \<in> set (param_groups opt_two). \<forall>n. \<exists>r. lr_scheduled g n = Inr r"
    by (simp add: opt_two_groups opt_two_lr)
  have dense: "\<forall>q gr. grad (heap w_fresh q) = Some gr \<longrightarrow> \<not> is_sparse gr"
    by (auto simp: w_fresh_def)
  have r1: "fst (BERTAdam_step opt_two None w_fresh) = Inr None"
    using step_groups_returns [OF lrs dense] by (simp add: BERTAdam_step_fst)
  have "\<forall>q gr. grad (heap ?w1 q) = Some gr \<longrightarrow> \<not> is_sparse gr"
    unfolding BERTAdam_step_snd using dense by (rule no_sparse_kept)
  then have r2: "fst (BERTAdam_step opt_two None ?w1) = Inr None"
    using step_groups_returns [OF lrs] by (simp add: BERTAdam_step_fst)
  have g: "grad (heap w_fresh 0) = Some (Gradient False [1])" by (simp add: w_fresh_def)
  have z: "step (state_of w_fresh 0) = 0" by (simp add: w_fresh_def state_of_def)
  have n: "count_list (concat (map params (param_groups opt_two))) 0 = 1"
    by (simp add: opt_two_groups opt_two_params)
  have pre: "(\<exists>loss. fst (BERTAdam_step opt_two None w_fresh) = Inr loss) \<and>
      grad (heap w_fresh 0) \<noteq> None \<and>
      count_list (concat (map params (param_groups opt_two))) 0 = 1"
    using r1 g n by simp
  note t = step_counter_increments [of w_fresh 0 opt_two None None]
  have "step (state_of ?w1 0) = step (state_of w_fresh 0) + 1"
    using t pre by blast
  moreover have "step (state_of (snd (BERTAdam_step opt_two None ?w1)) 0) =
      step (state_of w_fresh 0) + 2"
    using t pre r2 by blast
  ultimately show ?thesis using r1 r2 g z by simp
qed

section \<open>The optimizer factory\<close>

lemma any_no_decay_iff:
  "any_no_decay n \<longleftrightarrow>
     sublist ''bias'' n \<or> sublist ''LayerNorm.bias'' n \<or> sublist ''LayerNorm.weight'' n"
  by (simp add: any_no_decay_def no_decay_def)

lemma mset_split: "mset (filter (\<lambda>x. \<not> P x) xs) + mset (filter P xs) = mset xs"
  by (induction xs) auto

lemma optimizer_parameters_eq:
  "optimizer_parameters model op wd =
      [ParamDict (map snd (filter (\<lambda>x. \<not> any_no_decay (fst x)) (param_optimizer model op))) (Some wd),
       ParamDict (map snd (filter (\<lambda>x. any_no_decay (fst x)) (param_optimizer model op))) (Some 0)]"
  by (simp add: optimizer_parameters_def Let_def case_prod_unfold)

lemma param_optimizer_set:
  "set (param_optimizer model op) =
     {x \<in> set model. op \<or> \<not> sublist ''pooler'' (fst x)}"
  by (auto simp: param_optimizer_def)

lemma param_optimizer_distinct:
  "distinct (map snd model) \<Longrightarrow> distinct (map snd (param_optimizer model op))"
  by (simp add: param_optimizer_def distinct_map_filter)

lemma groups_disjoint:
  assumes "distinct (map snd xs)"
  shows "set (map snd (filter (\<lambda>x. \<not> P x) xs)) \<inter> set (map snd (filter P xs)) = {}"
proof -
  have "inj_on snd (set xs)" using assms by (simp add: distinct_map)
  then show ?thesis by (auto simp: inj_on_def)
qed

lemma get_optimization_custom:
  assumes "get_optimization apex model False l ts sched wr wd mgn op = Inr r"
  shows "\<exists>opt. r = Custom opt \<and>
     param_groups opt =
       map (add_param_group (defaults opt)) (optimizer_parameters model op wd) \<and>
     weight_decay_rate (defaults opt) = wd"
  using assms
  by (auto simp: get_optimization_def bind_err_def BERTAdam_init_def Let_def
        split: if_splits sum.splits)

lemma get_optimization_fp16:
  assumes "get_optimization apex model True l ts sched wr wd mgn op = Inr r"
  shows "r = FP16_Optimizer (optimizer_parameters model op wd) l mgn"
  using assms
  by (auto simp: get_optimization_def Let_def split: if_splits)

lemma get_optimization_returns:
  assumes "0 \<le> wr" "wr < 1" "sched \<in> set (map fst SCHEDULES)" "l = None \<or> (\<exists>v. l = Some v \<and> 0 \<le> v)"
  shows "\<exists>opt. get_optimization apex model False l ts sched wr wd mgn op = Inr (Custom opt)"
  using assms
  by (auto simp: get_optimization_def bind_err_def BERTAdam_init_def Let_def default_args_def)


lemma model_four_groups:
  "optimizer_parameters model_four False 0.01 =
     [ParamDict [0] (Some 0.01), ParamDict [1, 3] (Some 0)]"
  by code_simp

text \<open>
  Claim C9. The factory builds exactly two parameter groups from the named parameters
  (those with \<open>pooler\<close> in the name left out unless \<open>opt_pooler\<close>):
  the parameters whose name contains none of bias, LayerNorm.bias, LayerNorm.weight, with
  the given weight decay, and the parameters whose name contains one of them, with weight
  decay 0. Every kept entry lands in the group its name decides, the two groups together
  hold the kept parameters once each, and they are disjoint when the parameters are
  distinct objects. Whatever optimizer the factory returns is built on these two groups,
  and with valid arguments and full precision it does return one.
\<close>

theorem factory_two_groups:
  "(\<exists>decay nodecay.
      optimizer_parameters model op wd =
        [ParamDict decay (Some wd), ParamDict nodecay (Some 0)] \<and>
      mset decay + mset nodecay = mset (map snd (param_optimizer model op)) \<and>
      (\<forall>x \<in> set (param_optimizer model op).
         if any_no_decay (fst x) then snd x \<in> set nodecay else snd x \<in> set decay) \<and>
      (distinct (map snd model) \<longrightarrow> set decay \<inter> set nodecay = {}) \<and>
      (\<forall>r. get_optimization apex model float16 l ts sched wr wd mgn op = Inr r \<longrightarrow>
         (case r of
            Custom opt \<Rightarrow>
              map params (param_groups opt) = [decay, nodecay] \<and>
              map weight_decay_rate (param_groups opt) = [wd, 0]
          | FP16_Optimizer ops l' mgn' \<Rightarrow>
              ops = [ParamDict decay (Some wd), ParamDict nodecay (Some 0)]))) \<and>
   (any_no_decay n \<longleftrightarrow>
      sublist ''bias'' n \<or> sublist ''LayerNorm.bias'' n \<or> sublist ''LayerNorm.weight'' n) \<and>
   set (param_optimizer model op) = {x \<in> set model. op \<or> \<not> sublist ''pooler'' (fst x)} \<and>
   (\<not> float16 \<and> 0 \<le> wr \<and> wr < 1 \<and> sched \<in> set (map fst SCHEDULES) \<and>
    (l = None \<or> (\<exists>v. l = Some v \<and> 0 \<le> v)) \<longrightarrow>
      (\<exists>opt. get_optimization apex model float16 l ts sched wr wd mgn op = Inr (Custom opt)))"
proof (intro conjI)
  let ?po = "param_optimizer model op"
  let ?decay = "map snd (filter (\<lambda>x. \<not> any_no_decay (fst x)) ?po)"
  let ?nodecay = "map snd (filter (\<lambda>x. any_no_decay (fst x)) ?po)"
  have e: "optimizer_parameters model op wd =
        [ParamDict ?decay (Some wd), ParamDict ?nodecay (Some 0)]"
    by (rule optimizer_parameters_eq)
  have m: "mset ?decay + mset ?nodecay = mset (map snd ?po)"
    using mset_split [of "\<lambda>x. any_no_decay (fst x)" ?po]
    by (metis image_mset_union mset_map)
  have b: "\<forall>x \<in> set ?po. if any_no_decay (fst x) then snd x \<in> set ?nodecay else snd x \<in> set ?decay"
    by auto
  have d: "distinct (map snd model) \<longrightarrow> set ?decay \<inter> set ?nodecay = {}"
    using groups_disjoint [of ?po "\<lambda>x. any_no_decay (fst x)"] param_optimizer_distinct by blast
  have g: "\<forall>r. get_optimization apex model float16 l ts sched wr wd mgn op = Inr r \<longrightarrow>
         (case r of
            Custom opt \<Rightarrow>
              map params (param_groups opt) = [?decay, ?nodecay] \<and>
              map weight_decay_rate (param_groups opt) = [wd, 0]
          | FP16_Optimizer ops l' mgn' \<Rightarrow>
              ops = [ParamDict ?decay (Some wd), ParamDict ?nodecay (Some 0)])"
  proof (intro allI impI)
    fix r
    assume r: "get_optimization apex model float16 l ts sched wr wd mgn op = Inr r"
    show "case r of
            Custom opt \<Rightarrow>
              map params (param_groups opt) = [?decay, ?nodecay] \<and>
              map weight_decay_rate (param_groups opt) = [wd, 0]
          | FP16_Optimizer ops l' mgn' \<Rightarrow>
              ops = [ParamDict ?decay (Some wd), ParamDict ?nodecay (Some 0)]"
    proof (cases float16)
      case True
      then have "r = FP16_Optimizer (optimizer_parameters model op wd) l mgn"
        using get_optimization_fp16 [of apex model l ts sched wr wd mgn op r] r by simp
      then show ?thesis unfolding e by simp
    next
      case False
      then obtain opt where "r = Custom opt"
        "param_groups opt = map (add_param_group (defaults opt)) (optimizer_parameters model op wd)"
        using get_optimization_custom [of apex model l ts sched wr wd mgn op r] r by auto
      then show ?thesis unfolding e by (simp add: add_param_group_def)
    qed
  qed
  show "\<exists>decay nodecay.
      optimizer_parameters model op wd =
        [ParamDict decay (Some wd), ParamDict nodecay (Some 0)] \<and>
      mset decay + mset nodecay = mset (map snd (param_optimizer model op)) \<and>
      (\<forall>x \<in> set (param_optimizer model op).
         if any_no_decay (fst x) then snd x \<in> set nodecay else snd x \<in> set decay) \<and>
      (distinct (map snd model) \<longrightarrow> set decay \<inter> set nodecay = {}) \<and>
      (\<forall>r. get_optimization apex model float16 l ts sched wr wd mgn op = Inr r \<longrightarrow>
         (case r of
            Custom opt \<Rightarrow>
              map params (param_groups opt) = [decay, nodecay] \<and>
              map weight_decay_rate (param_groups opt) = [wd, 0]
          | FP16_Optimizer ops l' mgn' \<Rightarrow>
              ops = [ParamDict decay (Some wd), ParamDict nodecay (Some 0)]))"
    using e m b d g by blast
  show "any_no_decay n \<longleftrightarrow>
      sublist ''bias'' n \<or> sublist ''LayerNorm.bias'' n \<or> sublist ''LayerNorm.weight'' n"
    by (rule any_no_decay_iff)
  show "set (param_optimizer model op) = {x \<in> set model. op \<or> \<not> sublist ''pooler'' (fst x)}"
    by (rule param_optimizer_set)
  show "\<not> float16 \<and> 0 \<le> wr \<and> wr < 1 \<and> sched \<in> set (map fst SCHEDULES) \<and>
    (l = None \<or> (\<exists>v. l = Some v \<and> 0 \<le> v)) \<longrightarrow>
      (\<exists>opt. get_optimization apex model float16 l ts sched wr wd mgn op = Inr (Custom opt))"
    using get_optimization_returns [of wr sched l apex model ts wd mgn op] by auto
qed

theorem factory_two_groups_witness:
  "\<exists>opt. get_optimization False model_four False (Some 1) 100 ''warmup_linear'' 0.1 0.01 1 False =
           Inr (Custom opt) \<and>
         map params (param_groups opt) = [[0], [1, 3]] \<and>
         map weight_decay_rate (param_groups opt) = [0.01, 0]"
proof -
  note t = factory_two_groups [of model_four False "0.01" False False "Some 1" 100
      "''warmup_linear''" "0.1" 1]
  have pre: "\<not> False \<and> (0::real) \<le> 0.1 \<and> (0.1::real) < 1 \<and>
      ''warmup_linear'' \<in> set (map fst SCHEDULES) \<and>
      (Some (1::real) = None \<or> (\<exists>v. Some (1::real) = Some v \<and> 0 \<le> v))"
    unfolding schedule_names by simp
  from t pre obtain opt where
    o: "get_optimization False model_four False (Some 1) 100 ''warmup_linear'' 0.1 0.01 1 False =
          Inr (Custom opt)"
    by blast
  from t [THEN conjunct1] obtain decay nodecay where
    dn: "optimizer_parameters model_four False 0.01 =
           [ParamDict decay (Some 0.01), ParamDict nodecay (Some 0)]"
    and g: "\<forall>r. get_optimization False model_four False (Some 1) 100 ''warmup_linear'' 0.1 0.01 1 False = Inr r \<longrightarrow>
         (case r of
            Custom opt \<Rightarrow>
              map params (param_groups opt) = [decay, nodecay] \<and>
              map weight_decay_rate (param_groups opt) = [0.01, 0]
          | FP16_Optimizer ops l' mgn' \<Rightarrow>
              ops = [ParamDict decay (Some 0.01), ParamDict nodecay (Some 0)])"
    by blast
  have "[ParamDict decay (Some 0.01), ParamDict nodecay (Some 0)] =
      [ParamDict [0] (Some 0.01), ParamDict [1, 3] (Some 0)]"
    using dn model_four_groups by (rule trans [OF sym])
  then have "decay = [0] \<and> nodecay = [1, 3]" by blast
  then have "map params (param_groups opt) = [[0], [1, 3]] \<and>
         map weight_decay_rate (param_groups opt) = [0.01, 0]"
    using g o by simp
  with o show ?thesis by (intro exI [of _ opt] conjI) simp_all
qed

end
